theory Spec2Isabelle
  imports Main "HOL-Library.Word" "HOL-Library.Char_ord" "HOL-Library.List_Lexorder"
begin

section \<open>Go values as seen through reflection\<close>

text \<open>
  The traversal of schema.go inspects its input through \<^verbatim>\<open>reflect.Value\<close>. The model keeps
  the kinds of value the traversal can meet: the zero \<^verbatim>\<open>reflect.Value{}\<close> (\<open>Invalid\<close>), scalars,
  pointers (nil or pointing to a value), slices (nil or a sequence), arrays, structs (fields
  in declaration order, with their names) and maps with string keys (nil or a table).
  A floating-point number is kept as its IEEE bit pattern, which is all \<^verbatim>\<open>IsZero\<close> looks at.
\<close>

datatype gval =
    Invalid
  | VBool bool
  | VInt int
  | VFloat "64 word"
  | VString string
  | VPtr "gval option"
  | VSlice "gval list option"
  | VArray "gval list"
  | VStruct "(string \<times> gval) list"
  | VMap "(string \<times> gval) list option"

text \<open>A panic of the Go runtime is the left injection, carrying its message.\<close>

type_synonym 'a panics = "string + 'a"

definition IsValid :: "gval \<Rightarrow> bool" where
  "IsValid v = (v \<noteq> Invalid)"

text \<open>
  \<^verbatim>\<open>Value.IsZero\<close>: a pointer, slice or map is zero exactly when it is nil, an array or a struct
  when all its elements or fields are zero. The method panics on the invalid value; both
  callers in schema.go test \<^verbatim>\<open>IsValid\<close> first.
\<close>

fun IsZero :: "gval \<Rightarrow> bool" where
  "IsZero Invalid = True"
| "IsZero (VBool b) = (\<not> b)"
| "IsZero (VInt i) = (i = 0)"
| "IsZero (VFloat w) = (w = 0)"
| "IsZero (VString s) = (s = [])"
| "IsZero (VPtr p) = (p = None)"
| "IsZero (VSlice xs) = (xs = None)"
| "IsZero (VArray xs) = list_all IsZero xs"
| "IsZero (VStruct fs) = list_all IsZero (map snd fs)"
| "IsZero (VMap m) = (m = None)"

definition isPtr :: "gval \<Rightarrow> bool" where
  "isPtr v = (case v of VPtr _ \<Rightarrow> True | _ \<Rightarrow> False)"

definition isMap :: "gval \<Rightarrow> bool" where
  "isMap v = (case v of VMap _ \<Rightarrow> True | _ \<Rightarrow> False)"

text \<open>\<^verbatim>\<open>Value.Elem\<close> on a pointer; the zero Value for a nil pointer, a panic on other kinds.\<close>

fun Elem :: "gval \<Rightarrow> gval panics" where
  "Elem (VPtr None) = Inr Invalid"
| "Elem (VPtr (Some v)) = Inr v"
| "Elem _ = Inl ''reflect: call of reflect.Value.Elem on non-pointer Value''"

text \<open>\<^verbatim>\<open>Value.Len\<close>: defined on arrays, maps, slices and strings, a panic elsewhere.\<close>

fun Len :: "gval \<Rightarrow> nat panics" where
  "Len (VSlice None) = Inr 0"
| "Len (VSlice (Some xs)) = Inr (length xs)"
| "Len (VArray xs) = Inr (length xs)"
| "Len (VString s) = Inr (length s)"
| "Len (VMap None) = Inr 0"
| "Len (VMap (Some m)) = Inr (length m)"
| "Len _ = Inl ''reflect: call of reflect.Value.Len on a value without length''"

text \<open>\<^verbatim>\<open>Value.IsNil\<close>: defined on pointers, slices and maps, a panic elsewhere.\<close>

fun IsNil :: "gval \<Rightarrow> bool panics" where
  "IsNil (VPtr p) = Inr (p = None)"
| "IsNil (VSlice xs) = Inr (xs = None)"
| "IsNil (VMap m) = Inr (m = None)"
| "IsNil _ = Inl ''reflect: call of reflect.Value.IsNil on a value that cannot be nil''"

text \<open>\<^verbatim>\<open>Value.Index\<close>: defined on arrays, slices and strings within range.\<close>

fun Index :: "gval \<Rightarrow> nat \<Rightarrow> gval panics" where
  "Index (VSlice (Some xs)) i =
     (if i < length xs then Inr (xs ! i) else Inl ''reflect: slice index out of range'')"
| "Index (VSlice None) i = Inl ''reflect: slice index out of range''"
| "Index (VArray xs) i =
     (if i < length xs then Inr (xs ! i) else Inl ''reflect: array index out of range'')"
| "Index (VString s) i =
     (if i < length s then Inr (VInt (int (of_char (s ! i) :: nat)))
      else Inl ''reflect: string index out of range'')"
| "Index _ i = Inl ''reflect: call of reflect.Value.Index on a value that cannot be indexed''"

text \<open>
  \<^verbatim>\<open>Value.FieldByIndex\<close>: follows a path of field positions through nested structs. A pointer
  met after the first step is dereferenced, and a nil one there is a panic.
\<close>

fun Field :: "gval \<Rightarrow> nat \<Rightarrow> gval panics" where
  "Field (VStruct fs) i =
     (if i < length fs then Inr (snd (fs ! i)) else Inl ''reflect: Field index out of range'')"
| "Field _ i = Inl ''reflect: call of reflect.Value.Field on non-struct Value''"

fun FieldByIndex_loop :: "gval \<Rightarrow> nat list \<Rightarrow> gval panics" where
  "FieldByIndex_loop v [] = Inr v"
| "FieldByIndex_loop v (x # index) =
     (case (case v of
              VPtr None \<Rightarrow> Inl ''reflect: indirection through nil pointer to embedded struct''
            | VPtr (Some (VStruct fs)) \<Rightarrow> Inr (VStruct fs)
            | _ \<Rightarrow> Inr v) of
        Inl p \<Rightarrow> Inl p
      | Inr v' \<Rightarrow> (case Field v' x of Inl p \<Rightarrow> Inl p | Inr w \<Rightarrow> FieldByIndex_loop w index))"

fun FieldByIndex :: "gval \<Rightarrow> nat list \<Rightarrow> gval panics" where
  "FieldByIndex v [] = (case v of VStruct fs \<Rightarrow> Inr v
       | _ \<Rightarrow> Inl ''reflect: call of reflect.Value.FieldByIndex on non-struct Value'')"
| "FieldByIndex v (x # index) =
     (case Field v x of Inl p \<Rightarrow> Inl p | Inr w \<Rightarrow> FieldByIndex_loop w index)"

text \<open>\<^verbatim>\<open>Value.FieldByName\<close>: the zero Value when the struct has no such field.\<close>

fun FieldByName :: "gval \<Rightarrow> string \<Rightarrow> gval panics" where
  "FieldByName (VStruct fs) name =
     Inr (case map_of fs name of None \<Rightarrow> Invalid | Some v \<Rightarrow> v)"
| "FieldByName _ name = Inl ''reflect: call of reflect.Value.FieldByName on non-struct Value''"

text \<open>\<^verbatim>\<open>Value.MapIndex\<close>: the zero Value when the key is missing or the map is nil.\<close>

fun MapIndex :: "gval \<Rightarrow> string \<Rightarrow> gval panics" where
  "MapIndex (VMap None) key = Inr Invalid"
| "MapIndex (VMap (Some m)) key = Inr (case map_of m key of None \<Rightarrow> Invalid | Some v \<Rightarrow> v)"
| "MapIndex _ key = Inl ''reflect: call of reflect.Value.MapIndex on non-map Value''"

section \<open>Levels, parquet values and the sink\<close>

text \<open>The \<^verbatim>\<open>levels\<close> struct of schema.go: three \<^verbatim>\<open>int8\<close> counters, which wrap around.\<close>

record levels =
  repetitionDepth :: "8 word"
  repetitionLevel :: "8 word"
  definitionLevel :: "8 word"

definition levels0 :: levels where
  "levels0 = \<lparr>repetitionDepth = 0, repetitionLevel = 0, definitionLevel = 0\<rparr>"

text \<open>The physical kinds of parquet.\<close>

datatype Kind = Boolean | Int32 | Int64 | Int96 | Float | Double | ByteArray | FixedLenByteArray

text \<open>
  The parquet \<^verbatim>\<open>Value\<close> handed to the sink. Its zero value (\<^verbatim>\<open>var v Value\<close>) has no kind and is
  the null value; the two level fields are stamped by the leaf.
\<close>

record Value =
  kind :: "Kind option"
  data :: gval
  valueRepetitionLevel :: "8 word"
  valueDefinitionLevel :: "8 word"

definition zeroValue :: Value where
  "zeroValue = \<lparr>kind = None, data = Invalid, valueRepetitionLevel = 0, valueDefinitionLevel = 0\<rparr>"

definition IsNull :: "Value \<Rightarrow> bool" where
  "IsNull v = (kind v = None)"

text \<open>
  Modelled from the spec: \<^verbatim>\<open>makeValue\<close> is not part of schema.go. The leaf "reads the
  physical value (or marks it null if the placeholder is absent)": the value made from a
  valid Go value carries the leaf's kind and the Go value itself.
\<close>

definition makeValue :: "Kind \<Rightarrow> gval \<Rightarrow> Value" where
  "makeValue k v = \<lparr>kind = Some k, data = v, valueRepetitionLevel = 0, valueDefinitionLevel = 0\<rparr>"

text \<open>
  The \<^verbatim>\<open>Traversal\<close> interface: one operation taking a column index and a value and
  returning an error or nil. Its side effects are a state \<open>'s\<close> passed through each call.
\<close>

type_synonym ('e, 's) Traversal = "nat \<Rightarrow> Value \<Rightarrow> 's \<Rightarrow> 'e option \<times> 's"

text \<open>What a call of a traverse function ends with: nil, an error, or a panic.\<close>

datatype 'e outcome = Nil | Error 'e | Panic string

section \<open>The compiled traversal functions\<close>

text \<open>
  A \<^verbatim>\<open>traverseFunc\<close> is a closure. Each constructor below is the closure returned by one
  function of schema.go, holding the variables that closure captures:
  \<^item> \<open>EmptyFunc\<close>: the closure of \<^verbatim>\<open>makeTraverseFunc\<close> for a message without children;
  \<^item> \<open>OptionalFunc traverse\<close>: the closure of \<^verbatim>\<open>traverseFuncOfOptional\<close>;
  \<^item> \<open>RepeatedFunc traverse\<close>: the closure of \<^verbatim>\<open>traverseFuncOfRepeated\<close>;
  \<^item> \<open>GroupFunc funcs valueByIndex\<close>: the closure of \<^verbatim>\<open>traverseFuncOfGroup\<close>;
  \<^item> \<open>LeafFunc columnIndex kind\<close>: the closure of \<^verbatim>\<open>traverseFuncOfLeaf\<close>.
  The function \<open>call\<close> holds the bodies of these closures.
\<close>

datatype traverseFunc =
    EmptyFunc
  | OptionalFunc traverseFunc
  | RepeatedFunc traverseFunc
  | GroupFunc "traverseFunc list" "gval \<Rightarrow> nat \<Rightarrow> gval panics"
  | LeafFunc nat Kind

fun call :: "traverseFunc \<Rightarrow> levels \<Rightarrow> gval \<Rightarrow> ('e, 's) Traversal \<Rightarrow> 's \<Rightarrow> 'e outcome \<times> 's"
and repeated_loop :: "traverseFunc \<Rightarrow> levels \<Rightarrow> gval \<Rightarrow> nat list \<Rightarrow> ('e, 's) Traversal \<Rightarrow> 's
                       \<Rightarrow> 'e outcome \<times> 's"
and group_loop :: "traverseFunc list \<Rightarrow> nat \<Rightarrow> levels \<Rightarrow> gval \<Rightarrow> (gval \<Rightarrow> nat \<Rightarrow> gval panics)
                    \<Rightarrow> ('e, 's) Traversal \<Rightarrow> 's \<Rightarrow> 'e outcome \<times> 's"
where
  "call EmptyFunc lv v traversal s = (Nil, s)"
| "call (OptionalFunc traverse) lv v traversal s =
     (if IsValid v then
        (if IsZero v then call traverse lv Invalid traversal s
         else if isPtr v then
           (case Elem v of
              Inl p \<Rightarrow> (Panic p, s)
            | Inr v' \<Rightarrow> call traverse (lv\<lparr>definitionLevel := definitionLevel lv + 1\<rparr>) v' traversal s)
         else call traverse (lv\<lparr>definitionLevel := definitionLevel lv + 1\<rparr>) v traversal s)
      else call traverse lv v traversal s)"
| "call (RepeatedFunc traverse) lv v traversal s =
     (if IsValid v then
        (case Len v of
           Inl p \<Rightarrow> (Panic p, s)
         | Inr numValues \<Rightarrow>
            (case IsNil v of
               Inl p \<Rightarrow> (Panic p, s)
             | Inr isnil \<Rightarrow>
                (let lv1 = lv\<lparr>repetitionDepth := repetitionDepth lv + 1\<rparr>;
                     lv2 = (if \<not> isnil then lv1\<lparr>definitionLevel := definitionLevel lv1 + 1\<rparr> else lv1)
                 in if numValues = 0 then call traverse lv2 Invalid traversal s
                    else repeated_loop traverse lv2 v [0..<numValues] traversal s)))
      else call traverse lv Invalid traversal s)"
| "call (GroupFunc funcs valueByIndex) lv v traversal s =
     group_loop funcs 0 lv v
       (if \<not> IsValid v then (\<lambda>base _. Inr base) else valueByIndex) traversal s"
| "call (LeafFunc columnIndex k) lv v traversal s =
     (let v0 = (if IsValid v then makeValue k v else zeroValue);
          v1 = v0\<lparr>valueRepetitionLevel := repetitionLevel lv\<rparr>;
          v2 = v1\<lparr>valueDefinitionLevel := definitionLevel lv\<rparr>
      in case traversal columnIndex v2 s of
           (None, s') \<Rightarrow> (Nil, s')
         | (Some e, s') \<Rightarrow> (Error e, s'))"
| "repeated_loop traverse lv v [] traversal s = (Nil, s)"
| "repeated_loop traverse lv v (i # rest) traversal s =
     (case Index v i of
        Inl p \<Rightarrow> (Panic p, s)
      | Inr x \<Rightarrow>
         (case call traverse lv x traversal s of
            (Nil, s') \<Rightarrow>
              repeated_loop traverse (lv\<lparr>repetitionLevel := repetitionDepth lv\<rparr>) v rest traversal s'
          | (err, s') \<Rightarrow> (err, s')))"
| "group_loop [] i lv v valueAt traversal s = (Nil, s)"
| "group_loop (f # funcs) i lv v valueAt traversal s =
     (case valueAt v i of
        Inl p \<Rightarrow> (Panic p, s)
      | Inr x \<Rightarrow>
         (case call f lv x traversal s of
            (Nil, s') \<Rightarrow> group_loop funcs (i + 1) lv v valueAt traversal s'
          | (err, s') \<Rightarrow> (err, s')))"

section \<open>Schema nodes\<close>

text \<open>
  schema.go programs against the \<^verbatim>\<open>Node\<close> interface and the node constructors of the
  package, whose source file is not part of the sources at hand. This section models them.
\<close>

datatype LogicalType =
    StringLT | EnumLT | UUIDLT | DecimalLT int int | IntegerLT nat bool | ListLT

text \<open>
  Modelled from the spec: the \<^verbatim>\<open>Type\<close> of a node, "physical kind, or group", with at most
  one logical type. A group type has no physical kind.
\<close>

datatype Type = Type (typeKind: "Kind option") (typeLength: nat) (LogicalType: "LogicalType option")

definition BooleanType :: Type where "BooleanType = Type (Some Boolean) 0 None"
definition Int32Type :: Type where "Int32Type = Type (Some Int32) 0 None"
definition Int64Type :: Type where "Int64Type = Type (Some Int64) 0 None"
definition Int96Type :: Type where "Int96Type = Type (Some Int96) 0 None"
definition FloatType :: Type where "FloatType = Type (Some Float) 0 None"
definition DoubleType :: Type where "DoubleType = Type (Some Double) 0 None"
definition groupType :: Type where "groupType = Type None 0 None"
definition listType :: Type where "listType = Type None 0 (Some ListLT)"

datatype Encoding = Plain | RLEDictionary | DeltaBinaryPacked

datatype Codec = Snappy | Gzip | Brotli | Lz4Raw | Zstd

text \<open>
  Modelled from the spec: the variants of \<^verbatim>\<open>Node\<close>: a leaf, a group of named children, and
  nodes wrapping an inner node with optionality, repetition, a list logical type, encodings
  or compression codecs. \<open>StructNode sfields names\<close> is the \<^verbatim>\<open>structNode\<close> of schema.go, each
  field a wrapped node with its index path; \<open>FieldNode node index\<close> is one \<^verbatim>\<open>structField\<close>
  seen as a node (what \<^verbatim>\<open>ChildByIndex\<close> returns).
\<close>

datatype Node =
    LeafNode Type
  | GroupNode "(string \<times> Node) list"
  | ListNode Node
  | OptionalNode Node
  | RepeatedNode Node
  | RequiredNode Node
  | EncodedNode Node "Encoding list"
  | CompressedNode Node "Codec list"
  | StructNode "(Node \<times> nat list) list" "string list"
  | FieldNode Node "nat list"

type_synonym structField = "Node \<times> nat list"

text \<open>Modelled from the spec: the leaf constructors used by \<^verbatim>\<open>nodeOf\<close> and \<^verbatim>\<open>makeStructField\<close>.\<close>

definition Leaf :: "Type \<Rightarrow> Node" where
  "Leaf t = LeafNode t"

definition Int_node :: "nat \<Rightarrow> Node" where
  "Int_node bitWidth =
     LeafNode (Type (Some (if bitWidth = 64 then Int64 else Int32)) 0 (Some (IntegerLT bitWidth True)))"

definition Uint :: "nat \<Rightarrow> Node" where
  "Uint bitWidth =
     LeafNode (Type (Some (if bitWidth = 64 then Int64 else Int32)) 0 (Some (IntegerLT bitWidth False)))"

definition String :: Node where
  "String = LeafNode (Type (Some ByteArray) 0 (Some StringLT))"

definition Enum :: Node where
  "Enum = LeafNode (Type (Some ByteArray) 0 (Some EnumLT))"

definition UUID :: Node where
  "UUID = LeafNode (Type (Some FixedLenByteArray) 16 (Some UUIDLT))"

definition Decimal :: "int \<Rightarrow> int \<Rightarrow> Type \<Rightarrow> Node" where
  "Decimal scale precision baseType =
     LeafNode (Type (typeKind baseType) (typeLength baseType) (Some (DecimalLT scale precision)))"

text \<open>
  Modelled from the spec: the decoration constructors "wrap an inner Node \<dots> but fail if the
  same decoration class is applied twice directly". \<^verbatim>\<open>Required\<close> and \<^verbatim>\<open>List\<close> are not in
  that list and always succeed. A list node has the nested children \<^verbatim>\<open>list.element\<close>.
\<close>

definition Optional :: "Node \<Rightarrow> Node panics" where
  "Optional node = (case node of
       OptionalNode _ \<Rightarrow> Inl ''parquet: optional applied twice''
     | _ \<Rightarrow> Inr (OptionalNode node))"

definition Repeated :: "Node \<Rightarrow> Node panics" where
  "Repeated node = (case node of
       RepeatedNode _ \<Rightarrow> Inl ''parquet: repeated applied twice''
     | _ \<Rightarrow> Inr (RepeatedNode node))"

definition Required :: "Node \<Rightarrow> Node" where
  "Required node = RequiredNode node"

definition Encoded :: "Node \<Rightarrow> Encoding list \<Rightarrow> Node panics" where
  "Encoded node encodings = (case node of
       EncodedNode _ _ \<Rightarrow> Inl ''parquet: encodings applied twice''
     | _ \<Rightarrow> Inr (EncodedNode node encodings))"

definition Compressed :: "Node \<Rightarrow> Codec list \<Rightarrow> Node panics" where
  "Compressed node codecs = (case node of
       CompressedNode _ _ \<Rightarrow> Inl ''parquet: compression codecs applied twice''
     | _ \<Rightarrow> Inr (CompressedNode node codecs))"

definition List :: "Node \<Rightarrow> Node" where
  "List of_node =
     ListNode (GroupNode [(''list'', RepeatedNode (GroupNode [(''element'', of_node)]))])"

text \<open>
  Modelled from the spec: the cardinality queries. "Exactly one of Optional/Repeated/Required
  is true"; a cardinality wrapper answers for itself, the other wrappers delegate to the node
  they wrap, and an unwrapped leaf or group is required.
\<close>

fun node_Optional :: "Node \<Rightarrow> bool" where
  "node_Optional (OptionalNode n) = True"
| "node_Optional (RepeatedNode n) = False"
| "node_Optional (RequiredNode n) = False"
| "node_Optional (EncodedNode n es) = node_Optional n"
| "node_Optional (CompressedNode n cs) = node_Optional n"
| "node_Optional (FieldNode n ix) = node_Optional n"
| "node_Optional _ = False"

fun node_Repeated :: "Node \<Rightarrow> bool" where
  "node_Repeated (OptionalNode n) = False"
| "node_Repeated (RepeatedNode n) = True"
| "node_Repeated (RequiredNode n) = False"
| "node_Repeated (EncodedNode n es) = node_Repeated n"
| "node_Repeated (CompressedNode n cs) = node_Repeated n"
| "node_Repeated (FieldNode n ix) = node_Repeated n"
| "node_Repeated _ = False"

definition node_Required :: "Node \<Rightarrow> bool" where
  "node_Required n = (\<not> node_Optional n \<and> \<not> node_Repeated n)"

text \<open>Modelled from the spec: \<^verbatim>\<open>Type\<close>; every wrapper but the list node delegates.\<close>

fun node_Type :: "Node \<Rightarrow> Type" where
  "node_Type (LeafNode t) = t"
| "node_Type (GroupNode kvs) = groupType"
| "node_Type (ListNode g) = listType"
| "node_Type (OptionalNode n) = node_Type n"
| "node_Type (RepeatedNode n) = node_Type n"
| "node_Type (RequiredNode n) = node_Type n"
| "node_Type (EncodedNode n es) = node_Type n"
| "node_Type (CompressedNode n cs) = node_Type n"
| "node_Type (StructNode sfields names) = groupType"
| "node_Type (FieldNode n ix) = node_Type n"

text \<open>
  \<^verbatim>\<open>sort.Search\<close> of the Go library: binary search for the least index in \<open>[0, n)\<close> at which
  \<open>f\<close> holds, \<open>n\<close> when there is none.
\<close>

function search_loop :: "(nat \<Rightarrow> bool) \<Rightarrow> nat \<Rightarrow> nat \<Rightarrow> nat" where
  "search_loop f i j =
     (if i < j then
        (let h = (i + j) div 2
         in if \<not> f h then search_loop f (h + 1) j else search_loop f i h)
      else i)"
  by pat_completeness auto
termination
  by (relation "measure (\<lambda>(f, i, j). j - i)") auto

definition Search :: "nat \<Rightarrow> (nat \<Rightarrow> bool) \<Rightarrow> nat" where
  "Search n f = search_loop f 0 n"

text \<open>\<^verbatim>\<open>structNode.indexOf\<close>, with the sentinel \<open>-1\<close> for a name that is not found.\<close>

definition indexOf :: "string list \<Rightarrow> string \<Rightarrow> int" where
  "indexOf names name =
     (let i = Search (length names) (\<lambda>i. names ! i \<ge> name)
      in if i = length names \<or> names ! i \<noteq> name then - 1 else int i)"

text \<open>\<^verbatim>\<open>structNode.ChildByIndex\<close>: indexing the field slice panics out of range.\<close>

definition ChildByIndex :: "structField list \<Rightarrow> int \<Rightarrow> Node panics" where
  "ChildByIndex sfields index =
     (if 0 \<le> index \<and> index < int (length sfields)
      then Inr (FieldNode (fst (sfields ! nat index)) (snd (sfields ! nat index)))
      else Inl ''runtime error: index out of range'')"

text \<open>
  \<^verbatim>\<open>structNode.ValueByIndex\<close>: a map is looked up by the child's name, anything else is taken
  to be a struct and read by the field's index path.
\<close>

definition ValueByIndex :: "structField list \<Rightarrow> string list \<Rightarrow> gval \<Rightarrow> int \<Rightarrow> gval panics" where
  "ValueByIndex sfields names base index =
     (if isMap base then
        (if 0 \<le> index \<and> index < int (length names) then MapIndex base (names ! nat index)
         else Inl ''runtime error: index out of range'')
      else
        (if 0 \<le> index \<and> index < int (length sfields)
         then FieldByIndex base (snd (sfields ! nat index))
         else Inl ''runtime error: index out of range''))"

text \<open>
  Child enumeration. The three methods of \<^verbatim>\<open>structNode\<close> follow schema.go; the rest is
  modelled from the spec: a group lists its children sorted by name, a leaf has none, and a
  wrapper delegates. Looking up a name that a group does not have yields a nil node, whose
  first use panics.
\<close>

fun ChildNames :: "Node \<Rightarrow> string list" where
  "ChildNames (LeafNode t) = []"
| "ChildNames (GroupNode kvs) = sort (remdups (map fst kvs))"
| "ChildNames (ListNode g) = ChildNames g"
| "ChildNames (OptionalNode n) = ChildNames n"
| "ChildNames (RepeatedNode n) = ChildNames n"
| "ChildNames (RequiredNode n) = ChildNames n"
| "ChildNames (EncodedNode n es) = ChildNames n"
| "ChildNames (CompressedNode n cs) = ChildNames n"
| "ChildNames (StructNode sfields names) = names"
| "ChildNames (FieldNode n ix) = ChildNames n"

fun NumChildren :: "Node \<Rightarrow> nat" where
  "NumChildren (LeafNode t) = 0"
| "NumChildren (GroupNode kvs) = length (remdups (map fst kvs))"
| "NumChildren (ListNode g) = NumChildren g"
| "NumChildren (OptionalNode n) = NumChildren n"
| "NumChildren (RepeatedNode n) = NumChildren n"
| "NumChildren (RequiredNode n) = NumChildren n"
| "NumChildren (EncodedNode n es) = NumChildren n"
| "NumChildren (CompressedNode n cs) = NumChildren n"
| "NumChildren (StructNode sfields names) = length sfields"
| "NumChildren (FieldNode n ix) = NumChildren n"

fun ChildByName :: "Node \<Rightarrow> string \<Rightarrow> Node panics" where
  "ChildByName (LeafNode t) name = Inl ''cannot lookup child by name in leaf parquet node''"
| "ChildByName (GroupNode kvs) name =
     (case map_of kvs name of
        None \<Rightarrow> Inl ''runtime error: invalid memory address or nil pointer dereference''
      | Some n \<Rightarrow> Inr n)"
| "ChildByName (ListNode g) name = ChildByName g name"
| "ChildByName (OptionalNode n) name = ChildByName n name"
| "ChildByName (RepeatedNode n) name = ChildByName n name"
| "ChildByName (RequiredNode n) name = ChildByName n name"
| "ChildByName (EncodedNode n es) name = ChildByName n name"
| "ChildByName (CompressedNode n cs) name = ChildByName n name"
| "ChildByName (StructNode sfields names) name = ChildByIndex sfields (indexOf names name)"
| "ChildByName (FieldNode n ix) name = ChildByName n name"

fun ValueByName :: "Node \<Rightarrow> gval \<Rightarrow> string \<Rightarrow> gval panics" where
  "ValueByName (LeafNode t) base name = Inl ''cannot lookup value by name in leaf parquet node''"
| "ValueByName (GroupNode kvs) base name =
     (if isMap base then MapIndex base name else FieldByName base name)"
| "ValueByName (ListNode g) base name = ValueByName g base name"
| "ValueByName (OptionalNode n) base name = ValueByName n base name"
| "ValueByName (RepeatedNode n) base name = ValueByName n base name"
| "ValueByName (RequiredNode n) base name = ValueByName n base name"
| "ValueByName (EncodedNode n es) base name = ValueByName n base name"
| "ValueByName (CompressedNode n cs) base name = ValueByName n base name"
| "ValueByName (StructNode sfields names) base name =
     ValueByIndex sfields names base (indexOf names name)"
| "ValueByName (FieldNode n ix) base name = ValueByName n base name"

text \<open>Modelled from the spec: \<^verbatim>\<open>unwrap\<close> strips the wrappers down to the leaf or group.\<close>

fun unwrap :: "Node \<Rightarrow> Node" where
  "unwrap (OptionalNode n) = unwrap n"
| "unwrap (RepeatedNode n) = unwrap n"
| "unwrap (RequiredNode n) = unwrap n"
| "unwrap (EncodedNode n es) = unwrap n"
| "unwrap (CompressedNode n cs) = unwrap n"
| "unwrap (FieldNode n ix) = unwrap n"
| "unwrap n = n"

text \<open>
  Modelled from the spec: a node is a leaf when it has no children ("the root \<dots> is a group
  unless the model is a zero-field type").
\<close>

definition isLeaf :: "Node \<Rightarrow> bool" where
  "isLeaf node = (NumChildren node = 0)"

section \<open>The traversal-plan compiler\<close>

text \<open>
  \<^verbatim>\<open>traverseFuncOfLeaf\<close>: the leaf takes the current column index and hands on the next.
  Reading the kind of a type that has none (a group type) panics.
\<close>

definition traverseFuncOfLeaf :: "nat \<Rightarrow> Node \<Rightarrow> (nat \<times> traverseFunc) panics" where
  "traverseFuncOfLeaf columnIndex node =
     (case typeKind (node_Type node) of
        None \<Rightarrow> Inl ''cannot call Kind on parquet group type''
      | Some k \<Rightarrow> Inr (columnIndex + 1, LeafFunc columnIndex k))"

text \<open>
  The accessor captured by the closure of \<^verbatim>\<open>traverseFuncOfGroup\<close>: by name through the node,
  or the \<^verbatim>\<open>ValueByIndex\<close> method when the unwrapped node is an \<^verbatim>\<open>IndexedNode\<close> (a \<^verbatim>\<open>structNode\<close>).
\<close>

definition valueByIndex_of :: "Node \<Rightarrow> string list \<Rightarrow> gval \<Rightarrow> nat \<Rightarrow> gval panics" where
  "valueByIndex_of node names =
     (case unwrap node of
        StructNode sfields snames \<Rightarrow> (\<lambda>base index. ValueByIndex sfields snames base (int index))
      | _ \<Rightarrow> (\<lambda>base index.
                if index < length names then ValueByName node base (names ! index)
                else Inl ''runtime error: index out of range''))"

text \<open>The size that decreases along the recursion of the compiler.\<close>

fun nsize :: "Node \<Rightarrow> nat" where
  "nsize (LeafNode t) = 1"
| "nsize (GroupNode kvs) = 1 + sum_list (map (\<lambda>kv. nsize (snd kv)) kvs)"
| "nsize (ListNode g) = 1 + nsize g"
| "nsize (OptionalNode n) = 1 + nsize n"
| "nsize (RepeatedNode n) = 1 + nsize n"
| "nsize (RequiredNode n) = nsize n"
| "nsize (EncodedNode n es) = 1 + nsize n"
| "nsize (CompressedNode n cs) = 1 + nsize n"
| "nsize (StructNode sfields names) = 2 + sum_list (map (\<lambda>f. nsize (fst f)) sfields)"
| "nsize (FieldNode n ix) = 1 + nsize n"

lemma nsize_member_fst: "f \<in> set fs \<Longrightarrow> nsize (fst f) \<le> sum_list (map (\<lambda>f. nsize (fst f)) fs)"
  by (induction fs) auto

lemma nsize_member_snd: "kv \<in> set kvs \<Longrightarrow> nsize (snd kv) \<le> sum_list (map (\<lambda>kv. nsize (snd kv)) kvs)"
  by (induction kvs) auto

lemma nsize_ChildByIndex: "ChildByIndex fs i = Inr ch \<Longrightarrow> nsize ch \<le> 1 + sum_list (map (\<lambda>f. nsize (fst f)) fs)"
  using nsize_member_fst [of "fs ! nat i" fs]
  by (auto simp: ChildByIndex_def split: if_splits)

lemma nsize_ChildByName: "ChildByName node name = Inr ch \<Longrightarrow> nsize ch < nsize node"
proof (induction node)
  case (GroupNode kvs)
  then obtain kv where "kv \<in> set kvs" "snd kv = ch"
    by (auto split: option.splits dest: map_of_SomeD)
  then show ?case using nsize_member_snd [of kv kvs] by auto
next
  case (StructNode fs names)
  then show ?case using nsize_ChildByIndex [of fs "indexOf names name" ch] by auto
qed auto

lemma nsize_Repeated: "Repeated elem = Inr r \<Longrightarrow> nsize r = 1 + nsize elem"
  by (auto simp: Repeated_def split: Node.splits)

definition compile_measure ::
  "(nat \<times> Node + nat \<times> Node + nat \<times> Node) + nat \<times> Node + nat \<times> Node + nat \<times> Node \<times> string list
   \<Rightarrow> nat \<times> nat \<times> nat" where
  "compile_measure x = (case x of
       Inl (Inl (c, n)) \<Rightarrow> (nsize n, if node_Optional n \<or> node_Repeated n then 7 else 5, 0)
     | Inl (Inr (Inl (c, n))) \<Rightarrow> (nsize n, 6, 0)
     | Inl (Inr (Inr (c, n))) \<Rightarrow> (nsize n, 6, 0)
     | Inr (Inl (c, n)) \<Rightarrow> (nsize n, 4, 0)
     | Inr (Inr (Inl (c, n))) \<Rightarrow> (nsize n, 3, 0)
     | Inr (Inr (Inr (c, n, names))) \<Rightarrow> (nsize n, 2, length names))"

function traverseFuncOf :: "nat \<Rightarrow> Node \<Rightarrow> (nat \<times> traverseFunc) panics"
and traverseFuncOfOptional :: "nat \<Rightarrow> Node \<Rightarrow> (nat \<times> traverseFunc) panics"
and traverseFuncOfRepeated :: "nat \<Rightarrow> Node \<Rightarrow> (nat \<times> traverseFunc) panics"
and traverseFuncOfRequired :: "nat \<Rightarrow> Node \<Rightarrow> (nat \<times> traverseFunc) panics"
and traverseFuncOfGroup :: "nat \<Rightarrow> Node \<Rightarrow> (nat \<times> traverseFunc) panics"
and traverseFuncOfGroup_loop :: "nat \<Rightarrow> Node \<Rightarrow> string list \<Rightarrow> (nat \<times> traverseFunc list) panics"
where
  "traverseFuncOf columnIndex node =
     (if node_Optional node then traverseFuncOfOptional columnIndex node
      else if LogicalType (node_Type node) = Some ListLT then
        (case ChildByName node ''list'' of
           Inl p \<Rightarrow> Inl p
         | Inr l \<Rightarrow>
            (case ChildByName l ''element'' of
               Inl p \<Rightarrow> Inl p
             | Inr elem \<Rightarrow>
                (case Repeated elem of
                   Inl p \<Rightarrow> Inl p
                 | Inr r \<Rightarrow> traverseFuncOf columnIndex r)))
      else if node_Repeated node then traverseFuncOfRepeated columnIndex node
      else traverseFuncOfRequired columnIndex node)"
| "traverseFuncOfOptional columnIndex node =
     (case traverseFuncOf columnIndex (Required node) of
        Inl p \<Rightarrow> Inl p
      | Inr (columnIndex', traverse) \<Rightarrow> Inr (columnIndex', OptionalFunc traverse))"
| "traverseFuncOfRepeated columnIndex node =
     (case traverseFuncOf columnIndex (Required node) of
        Inl p \<Rightarrow> Inl p
      | Inr (columnIndex', traverse) \<Rightarrow> Inr (columnIndex', RepeatedFunc traverse))"
| "traverseFuncOfRequired columnIndex node =
     (if isLeaf node then traverseFuncOfLeaf columnIndex node
      else traverseFuncOfGroup columnIndex node)"
| "traverseFuncOfGroup columnIndex node =
     (let names = ChildNames node
      in case traverseFuncOfGroup_loop columnIndex node names of
           Inl p \<Rightarrow> Inl p
         | Inr (columnIndex', funcs) \<Rightarrow>
             Inr (columnIndex', GroupFunc funcs (valueByIndex_of node names)))"
| "traverseFuncOfGroup_loop columnIndex node [] = Inr (columnIndex, [])"
| "traverseFuncOfGroup_loop columnIndex node (name # names) =
     (case ChildByName node name of
        Inl p \<Rightarrow> Inl p
      | Inr child \<Rightarrow>
         (case traverseFuncOf columnIndex child of
            Inl p \<Rightarrow> Inl p
          | Inr (columnIndex', f) \<Rightarrow>
             (case traverseFuncOfGroup_loop columnIndex' node names of
                Inl p \<Rightarrow> Inl p
              | Inr (columnIndex'', funcs) \<Rightarrow> Inr (columnIndex'', f # funcs))))"
  by pat_completeness auto

termination
proof (relation "inv_image (less_than <*lex*> less_than <*lex*> less_than) compile_measure",
       goal_cases)
  case 1
  show ?case by (intro wf_inv_image wf_lex_prod wf_less_than)
qed (auto simp: compile_measure_def Required_def
       dest!: nsize_ChildByName nsize_Repeated)

text \<open>\<^verbatim>\<open>makeTraverseFunc\<close>: a message without children gets the closure that does nothing.\<close>

definition makeTraverseFunc :: "Node \<Rightarrow> traverseFunc panics" where
  "makeTraverseFunc node =
     (if NumChildren node = 0 then Inr EmptyFunc
      else (case traverseFuncOf 0 node of Inl p \<Rightarrow> Inl p | Inr (_, traverse) \<Rightarrow> Inr traverse))"

record Schema =
  schemaName :: string
  schemaRoot :: Node
  schemaTraverse :: traverseFunc

definition newSchema :: "string \<Rightarrow> Node \<Rightarrow> Schema panics" where
  "newSchema nm node =
     (case makeTraverseFunc node of
        Inl p \<Rightarrow> Inl p
      | Inr f \<Rightarrow> Inr \<lparr>schemaName = nm, schemaRoot = node, schemaTraverse = f\<rparr>)"

text \<open>
  \<^verbatim>\<open>Schema.Traverse\<close>: a nil pointer at the top becomes the invalid value, any other pointer is
  dereferenced once, and the traversal starts with all three levels at zero.
\<close>

definition Traverse :: "Schema \<Rightarrow> gval \<Rightarrow> ('e, 's) Traversal \<Rightarrow> 's \<Rightarrow> 'e outcome \<times> 's" where
  "Traverse s value traversal st =
     (if isPtr value then
        (case IsNil value of
           Inl p \<Rightarrow> (Panic p, st)
         | Inr True \<Rightarrow> call (schemaTraverse s) levels0 Invalid traversal st
         | Inr False \<Rightarrow>
            (case Elem value of
               Inl p \<Rightarrow> (Panic p, st)
             | Inr v \<Rightarrow> call (schemaTraverse s) levels0 v traversal st))
      else call (schemaTraverse s) levels0 value traversal st)"

section \<open>Go types as seen through reflection\<close>

datatype reflect_Kind =
    reflect_Bool | reflect_Int | reflect_Int8 | reflect_Int16 | reflect_Int32 | reflect_Int64
  | reflect_Uint | reflect_Uint8 | reflect_Uint16 | reflect_Uint32 | reflect_Uint64
  | reflect_Uintptr | reflect_Float32 | reflect_Float64 | reflect_Complex64
  | reflect_Complex128 | reflect_Array | reflect_Chan | reflect_Func | reflect_Interface
  | reflect_Map | reflect_Ptr | reflect_Slice | reflect_String | reflect_Struct
  | reflect_UnsafePointer

text \<open>
  A struct tag in its conventional form is a list of \<^verbatim>\<open>key:"value"\<close> pairs; \<^verbatim>\<open>Tag.Get\<close> returns
  the value of a key, the empty string when the key is missing.
\<close>

type_synonym StructTag = "(string \<times> string) list"

definition Get :: "StructTag \<Rightarrow> string \<Rightarrow> string" where
  "Get tag key = (case map_of tag key of None \<Rightarrow> [] | Some v \<Rightarrow> v)"

text \<open>
  \<^verbatim>\<open>reflect.Type\<close> and \<^verbatim>\<open>reflect.StructField\<close>. \<open>Basic k\<close> is a type without component types
  (booleans, numbers, strings, and the kinds schema.go rejects); \<open>Int96T\<close> is
  \<^verbatim>\<open>deprecated.Int96\<close>, an array of three \<^verbatim>\<open>uint32\<close>. A field is exported when its
  \<^verbatim>\<open>PkgPath\<close> is empty.
\<close>

datatype gtype =
    Basic reflect_Kind
  | PtrTo gtype
  | SliceOf gtype
  | ArrayOf nat gtype
  | MapOf gtype gtype
  | StructType string "StructField list"
  | Int96T
and StructField =
    StructField (Name: string) (Type: gtype) (Tag: StructTag) (Index: "nat list")
                (Anonymous: bool) (PkgPath: string)

fun type_Kind :: "gtype \<Rightarrow> reflect_Kind" where
  "type_Kind (Basic k) = k"
| "type_Kind (PtrTo t) = reflect_Ptr"
| "type_Kind (SliceOf t) = reflect_Slice"
| "type_Kind (ArrayOf n t) = reflect_Array"
| "type_Kind (MapOf k v) = reflect_Map"
| "type_Kind (StructType nm fs) = reflect_Struct"
| "type_Kind Int96T = reflect_Array"

definition IsExported :: "StructField \<Rightarrow> bool" where
  "IsExported f = (PkgPath f = [])"

text \<open>\<^verbatim>\<open>Type.Bits\<close> for the sized integer kinds \<^verbatim>\<open>nodeOf\<close> asks about.\<close>

definition Bits :: "gtype \<Rightarrow> nat" where
  "Bits t = (case type_Kind t of
       reflect_Int8 \<Rightarrow> 8 | reflect_Int16 \<Rightarrow> 16 | reflect_Int32 \<Rightarrow> 32 | reflect_Int64 \<Rightarrow> 64
     | reflect_Uint8 \<Rightarrow> 8 | reflect_Uint16 \<Rightarrow> 16 | reflect_Uint32 \<Rightarrow> 32 | reflect_Uint64 \<Rightarrow> 64
     | reflect_Float32 \<Rightarrow> 32 | reflect_Float64 \<Rightarrow> 64
     | reflect_Complex64 \<Rightarrow> 64 | reflect_Complex128 \<Rightarrow> 128
     | _ \<Rightarrow> 64)"

text \<open>Decimal digits of a number, for array lengths in type names.\<close>

fun digits_of :: "nat \<Rightarrow> nat \<Rightarrow> string" where
  "digits_of 0 n = []"
| "digits_of (Suc fuel) n =
     (if n < 10 then [char_of (48 + n)]
      else digits_of fuel (n div 10) @ [char_of (48 + n mod 10)])"

definition Itoa :: "nat \<Rightarrow> string" where
  "Itoa n = digits_of (Suc n) n"

definition Kind_String :: "reflect_Kind \<Rightarrow> string" where
  "Kind_String k = (case k of
       reflect_Bool \<Rightarrow> ''bool'' | reflect_Int \<Rightarrow> ''int'' | reflect_Int8 \<Rightarrow> ''int8''
     | reflect_Int16 \<Rightarrow> ''int16'' | reflect_Int32 \<Rightarrow> ''int32'' | reflect_Int64 \<Rightarrow> ''int64''
     | reflect_Uint \<Rightarrow> ''uint'' | reflect_Uint8 \<Rightarrow> ''uint8'' | reflect_Uint16 \<Rightarrow> ''uint16''
     | reflect_Uint32 \<Rightarrow> ''uint32'' | reflect_Uint64 \<Rightarrow> ''uint64''
     | reflect_Uintptr \<Rightarrow> ''uintptr'' | reflect_Float32 \<Rightarrow> ''float32''
     | reflect_Float64 \<Rightarrow> ''float64'' | reflect_Complex64 \<Rightarrow> ''complex64''
     | reflect_Complex128 \<Rightarrow> ''complex128'' | reflect_Array \<Rightarrow> ''array''
     | reflect_Chan \<Rightarrow> ''chan'' | reflect_Func \<Rightarrow> ''func'' | reflect_Interface \<Rightarrow> ''interface''
     | reflect_Map \<Rightarrow> ''map'' | reflect_Ptr \<Rightarrow> ''ptr'' | reflect_Slice \<Rightarrow> ''slice''
     | reflect_String \<Rightarrow> ''string'' | reflect_Struct \<Rightarrow> ''struct''
     | reflect_UnsafePointer \<Rightarrow> ''unsafe.Pointer'')"

text \<open>\<^verbatim>\<open>Type.String\<close>; a struct type prints as its name.\<close>

fun Type_String :: "gtype \<Rightarrow> string" where
  "Type_String (Basic k) = Kind_String k"
| "Type_String (PtrTo t) = ''*'' @ Type_String t"
| "Type_String (SliceOf t) = ''[]'' @ Type_String t"
| "Type_String (ArrayOf n t) = ''['' @ Itoa n @ '']'' @ Type_String t"
| "Type_String (MapOf k v) = ''map['' @ Type_String k @ '']'' @ Type_String v"
| "Type_String (StructType nm fs) = (if nm = [] then ''struct {...}'' else nm)"
| "Type_String Int96T = ''deprecated.Int96''"

text \<open>The text of a tag: its \<^verbatim>\<open>key:"value"\<close> pairs separated by spaces.\<close>

fun Tag_String :: "StructTag \<Rightarrow> string" where
  "Tag_String [] = []"
| "Tag_String [(k, v)] = k @ '':'' @ [CHR 0x22] @ v @ [CHR 0x22]"
| "Tag_String ((k, v) # rest) = k @ '':'' @ [CHR 0x22] @ v @ [CHR 0x22] @ '' '' @ Tag_String rest"

section \<open>The schema builder\<close>

text \<open>\<^verbatim>\<open>strings.IndexByte\<close>: the position of the first occurrence, \<open>-1\<close> when there is none.\<close>

fun IndexByte_from :: "string \<Rightarrow> char \<Rightarrow> nat \<Rightarrow> int" where
  "IndexByte_from [] c i = - 1"
| "IndexByte_from (x # xs) c i = (if x = c then int i else IndexByte_from xs c (i + 1))"

definition IndexByte :: "string \<Rightarrow> char \<Rightarrow> int" where
  "IndexByte s c = IndexByte_from s c 0"

definition split :: "string \<Rightarrow> string \<times> string" where
  "split s = (let i = IndexByte s CHR '','' in
     if i < 0 then (s, []) else (take (nat i) s, drop (nat i + 1) s))"

definition splitOptionArgs :: "string \<Rightarrow> string \<times> string" where
  "splitOptionArgs s = (let i = IndexByte s CHR ''('' in
     if i \<ge> 0 then (take (nat i) s, drop (nat i) s) else (s, ''()''))"

text \<open>\<^verbatim>\<open>strings.Split\<close> on a one-byte separator.\<close>

fun Split_acc :: "string \<Rightarrow> char \<Rightarrow> string \<Rightarrow> string list" where
  "Split_acc [] sep cur = [cur]"
| "Split_acc (x # xs) sep cur =
     (if x = sep then cur # Split_acc xs sep [] else Split_acc xs sep (cur @ [x]))"

definition Split :: "string \<Rightarrow> char \<Rightarrow> string list" where
  "Split s sep = Split_acc s sep []"

text \<open>
  \<^verbatim>\<open>strconv.ParseInt(s, 10, 32)\<close>: an optional sign, then at least one decimal digit, and a
  value that fits 32 bits; anything else is an error.
\<close>

definition isDigit :: "char \<Rightarrow> bool" where
  "isDigit c = (48 \<le> (of_char c :: nat) \<and> (of_char c :: nat) \<le> 57)"

definition digitsValue :: "string \<Rightarrow> nat" where
  "digitsValue ds = foldl (\<lambda>acc c. 10 * acc + ((of_char c :: nat) - 48)) 0 ds"

definition ParseInt32 :: "string \<Rightarrow> string + int" where
  "ParseInt32 s =
     (if s = [] then Inl ''invalid syntax''
      else
        (let neg = (hd s = CHR ''-'');
             ds = (if hd s = CHR ''+'' \<or> hd s = CHR ''-'' then tl s else s)
         in if ds = [] \<or> \<not> list_all isDigit ds then Inl ''invalid syntax''
            else
              (let un = digitsValue ds
               in if \<not> neg \<and> un \<ge> 2 ^ 31 then Inl ''value out of range''
                  else if neg \<and> un > 2 ^ 31 then Inl ''value out of range''
                  else Inr (if neg then - int un else int un))))"

definition HasPrefix :: "string \<Rightarrow> string \<Rightarrow> bool" where
  "HasPrefix s p = (take (length p) s = p)"

definition HasSuffix :: "string \<Rightarrow> string \<Rightarrow> bool" where
  "HasSuffix s p = (length p \<le> length s \<and> drop (length s - length p) s = p)"

definition TrimPrefix :: "string \<Rightarrow> string \<Rightarrow> string" where
  "TrimPrefix s p = (if HasPrefix s p then drop (length p) s else s)"

definition TrimSuffix :: "string \<Rightarrow> string \<Rightarrow> string" where
  "TrimSuffix s p = (if HasSuffix s p then take (length s - length p) s else s)"

definition parseDecimalArgs :: "string \<Rightarrow> string + (int \<times> int)" where
  "parseDecimalArgs args =
     (if \<not> HasPrefix args ''('' \<or> \<not> HasSuffix args '')''
      then Inl (''malformed decimal args: '' @ args)
      else
        (let args1 = TrimPrefix args ''('';
             args2 = TrimSuffix args1 '')'';
             parts = Split args2 CHR '',''
         in if length parts \<noteq> 2 then Inl (''malformed decimal args: ('' @ args2 @ '')'')
            else (case ParseInt32 (parts ! 0) of
                    Inl e \<Rightarrow> Inl e
                  | Inr s \<Rightarrow> (case ParseInt32 (parts ! 1) of
                               Inl e \<Rightarrow> Inl e
                             | Inr p \<Rightarrow> Inr (s, p)))))"

text \<open>
  \<^verbatim>\<open>appendStructFields\<close>: the fields of embedded (anonymous) members are spliced in depth
  first, each exported field with its full index path. \<^verbatim>\<open>NumField\<close> panics on a type that
  is not a struct.
\<close>

fun appendStructFields :: "gtype \<Rightarrow> StructField list \<Rightarrow> nat list \<Rightarrow> StructField list panics"
and appendStructFields_loop ::
    "StructField list \<Rightarrow> nat \<Rightarrow> StructField list \<Rightarrow> nat list \<Rightarrow> StructField list panics"
where
  "appendStructFields (StructType nm fs) flds index = appendStructFields_loop fs 0 flds index"
| "appendStructFields (Basic k) flds index = Inl ''reflect: NumField of non-struct type''"
| "appendStructFields (PtrTo t) flds index = Inl ''reflect: NumField of non-struct type''"
| "appendStructFields (SliceOf t) flds index = Inl ''reflect: NumField of non-struct type''"
| "appendStructFields (ArrayOf n t) flds index = Inl ''reflect: NumField of non-struct type''"
| "appendStructFields (MapOf k v) flds index = Inl ''reflect: NumField of non-struct type''"
| "appendStructFields Int96T flds index = Inl ''reflect: NumField of non-struct type''"
| "appendStructFields_loop [] i flds index = Inr flds"
| "appendStructFields_loop (StructField name t tag ix anonymous pkgPath # rest) i flds index =
     (let fieldIndex = index @ [i] in
      if anonymous then
        (case appendStructFields t flds fieldIndex of
           Inl p \<Rightarrow> Inl p
         | Inr flds' \<Rightarrow> appendStructFields_loop rest (i + 1) flds' index)
      else if pkgPath = [] then
        appendStructFields_loop rest (i + 1)
          (flds @ [StructField name t tag fieldIndex anonymous pkgPath]) index
      else appendStructFields_loop rest (i + 1) flds index)"

text \<open>
  \<^verbatim>\<open>structFieldsOf\<close>: the name of a field is overridden by the first element of its parquet
  tag, then the fields are sorted by name. \<^verbatim>\<open>sort.Slice\<close> is an insertion sort on slices
  shorter than twelve elements; on longer ones Go leaves the order of fields with equal
  names open, and the model keeps the insertion sort.
\<close>

definition renameField :: "StructField \<Rightarrow> StructField" where
  "renameField f =
     (let tag = Get (Tag f) ''parquet'' in
      if tag \<noteq> [] then
        (let name = fst (split tag) in
         if name \<noteq> [] then StructField name (Type f) (Tag f) (Index f) (Anonymous f) (PkgPath f)
         else f)
      else f)"

definition structFieldsOf :: "gtype \<Rightarrow> StructField list panics" where
  "structFieldsOf t =
     (case appendStructFields t [] [] of
        Inl p \<Rightarrow> Inl p
      | Inr flds \<Rightarrow> Inr (sort_key Name (map renameField flds)))"

text \<open>The three panics of the builder; each message ends with the description of the field.\<close>

definition structFieldString :: "StructField \<Rightarrow> string" where
  "structFieldString f = Name f @ '' '' @ Type_String (Type f) @ '' '' @ Tag_String (Tag f)"

definition throwInvalidFieldTag :: "StructField \<Rightarrow> string \<Rightarrow> string" where
  "throwInvalidFieldTag f tag =
     ''struct has invalid '' @ [CHR 0x27] @ tag @ [CHR 0x27] @ '' parquet tag: '' @ structFieldString f"

definition throwUnknownFieldTag :: "StructField \<Rightarrow> string \<Rightarrow> string" where
  "throwUnknownFieldTag f tag =
     ''struct has unrecognized '' @ [CHR 0x27] @ tag @ [CHR 0x27] @ '' parquet tag: ''
       @ structFieldString f"

definition throwInvalidStructField :: "string \<Rightarrow> StructField \<Rightarrow> string" where
  "throwInvalidStructField msg field = msg @ '': '' @ structFieldString field"

text \<open>
  The local variables of \<^verbatim>\<open>makeStructField\<close> that its closures update: \<^verbatim>\<open>field.Node\<close> (nil at
  first), \<^verbatim>\<open>optional\<close>, \<^verbatim>\<open>list\<close>, \<^verbatim>\<open>encodings\<close> and \<^verbatim>\<open>codecs\<close>.
\<close>

record fieldVars =
  var_Node :: "Node option"
  var_optional :: bool
  var_list :: bool
  var_encodings :: "Encoding list"
  var_codecs :: "Codec list"

definition fieldVars0 :: fieldVars where
  "fieldVars0 = \<lparr>var_Node = None, var_optional = False, var_list = False,
                  var_encodings = [], var_codecs = []\<rparr>"

definition setNode :: "StructField \<Rightarrow> fieldVars \<Rightarrow> Node \<Rightarrow> fieldVars panics" where
  "setNode f st node =
     (if var_Node st \<noteq> None
      then Inl (throwInvalidStructField
                  ''struct field has multiple logical parquet types declared'' f)
      else Inr (st\<lparr>var_Node := Some node\<rparr>))"

definition setOptional :: "StructField \<Rightarrow> fieldVars \<Rightarrow> fieldVars panics" where
  "setOptional f st =
     (if var_optional st
      then Inl (throwInvalidStructField
                  ''struct field has multiple declaration of the optional tag'' f)
      else Inr (st\<lparr>var_optional := True\<rparr>))"

definition setList :: "StructField \<Rightarrow> fieldVars \<Rightarrow> fieldVars panics" where
  "setList f st =
     (if var_list st
      then Inl (throwInvalidStructField
                  ''struct field has multiple declaration of the list tag'' f)
      else Inr (st\<lparr>var_list := True\<rparr>))"

definition setEncoding :: "StructField \<Rightarrow> fieldVars \<Rightarrow> Encoding \<Rightarrow> fieldVars panics" where
  "setEncoding f st enc =
     (if list_ex (\<lambda>e. e = enc) (var_encodings st)
      then Inl (throwInvalidStructField ''struct field has encoding declared multiple times'' f)
      else Inr (st\<lparr>var_encodings := var_encodings st @ [enc]\<rparr>))"

definition setCompression :: "StructField \<Rightarrow> fieldVars \<Rightarrow> Codec \<Rightarrow> fieldVars panics" where
  "setCompression f st codec =
     (if list_ex (\<lambda>c. c = codec) (var_codecs st)
      then Inl (throwInvalidStructField
                  ''struct field has compression codecs declared multiple times'' f)
      else Inr (st\<lparr>var_codecs := var_codecs st @ [codec]\<rparr>))"

text \<open>Facts for the termination of the builder.\<close>

lemma IndexByte_from_bounds:
  "IndexByte_from s c i = - 1 \<or> (int i \<le> IndexByte_from s c i \<and> IndexByte_from s c i < int (i + length s))"
  by (induction s arbitrary: i) force+

lemma split_shorter: "tag \<noteq> [] \<Longrightarrow> length (snd (split tag)) < length tag"
  using IndexByte_from_bounds [of tag "CHR '',''" 0]
  by (auto simp: split_def IndexByte_def Let_def)

fun max_size :: "StructField list \<Rightarrow> nat" where
  "max_size [] = 0"
| "max_size (f # fs) = max (size (Type f)) (max_size fs)"

lemma max_size_less: "(\<And>f. f \<in> set fs \<Longrightarrow> size (Type f) < n) \<Longrightarrow> 0 < n \<Longrightarrow> max_size fs < n"
  by (induction fs) auto

lemma size_Type_field: "size (Type f) < size f"
  by (cases f) simp

lemma size_field_list: "f \<in> set fs \<Longrightarrow> size f \<le> size_list size fs"
  by (induction fs) auto

lemma appendStructFields_sizes:
  "appendStructFields t acc index = Inr res \<Longrightarrow>
     \<forall>f\<in>set res. f \<in> set acc \<or> size (Type f) < size t"
  "appendStructFields_loop fs i acc index = Inr res \<Longrightarrow>
     \<forall>f\<in>set res. f \<in> set acc \<or> size (Type f) < size_list size fs"
proof (induction t acc index and fs i acc index arbitrary: res and res
       rule: appendStructFields_appendStructFields_loop.induct)
  case (9 nm t tag ix anonymous pkgPath rest i flds index)
  show ?case
  proof (cases anonymous)
    case True
    from "9.prems" True obtain flds' where
      a: "appendStructFields t flds (index @ [i]) = Inr flds'" and
      b: "appendStructFields_loop rest (i + 1) flds' index = Inr res"
      by (auto simp: Let_def split: sum.splits)
    from "9.IH"(1) [OF refl True a]
    have c: "\<forall>f\<in>set flds'. f \<in> set flds \<or> size (Type f) < size t" .
    from "9.IH"(2) [OF refl True a b]
    have d: "\<forall>f\<in>set res. f \<in> set flds' \<or> size (Type f) < size_list size rest" .
    from c d show ?thesis by fastforce
  next
    case False
    show ?thesis
    proof (cases "pkgPath = []")
      case True
      from "9.prems" False True have
        b: "appendStructFields_loop rest (i + 1)
              (flds @ [StructField nm t tag (index @ [i]) anonymous pkgPath]) index = Inr res"
        by (simp add: Let_def)
      from "9.IH"(3) [OF refl False True b] show ?thesis by fastforce
    next
      case nexp: False
      from "9.prems" False nexp have
        b: "appendStructFields_loop rest (i + 1) flds index = Inr res"
        by (simp add: Let_def)
      from "9.IH"(4) [OF refl False nexp b] show ?thesis by fastforce
    qed
  qed
qed auto

lemma Type_renameField [simp]: "Type (renameField f) = Type f"
  by (simp add: renameField_def Let_def)

lemma structFieldsOf_sizes:
  assumes "structFieldsOf t = Inr flds"
  shows "max_size flds < size t"
proof -
  from assms obtain raw where raw: "appendStructFields t [] [] = Inr raw"
    and flds: "flds = sort_key Name (map renameField raw)"
    by (auto simp: structFieldsOf_def split: sum.splits)
  from appendStructFields_sizes(1) [OF raw]
  have "\<forall>f\<in>set raw. size (Type f) < size t" by simp
  then have "\<And>f. f \<in> set flds \<Longrightarrow> size (Type f) < size t"
    by (auto simp: flds)
  moreover from raw have "0 < size t" by (cases t) auto
  ultimately show ?thesis by (rule max_size_less)
qed

text \<open>
  \<^verbatim>\<open>nodeOf\<close>, \<^verbatim>\<open>structNodeOf\<close> and \<^verbatim>\<open>makeStructField\<close> call each other. The loop of
  \<^verbatim>\<open>structNodeOf\<close> over the sorted fields and the loop of \<^verbatim>\<open>makeStructField\<close> over the options
  of the tag are functions of their own.
\<close>

definition builder_measure ::
  "(gtype + gtype) + StructField list + StructField + StructField \<times> fieldVars \<times> string
   \<Rightarrow> nat \<times> nat \<times> nat" where
  "builder_measure x = (case x of
       Inl (Inl t) \<Rightarrow> (size t, 5, 0)
     | Inl (Inr t) \<Rightarrow> (size t, 4, 0)
     | Inr (Inl fs) \<Rightarrow> (Suc (max_size fs), 3, length fs)
     | Inr (Inr (Inl f)) \<Rightarrow> (Suc (size (Type f)), 2, 0)
     | Inr (Inr (Inr (f, st, tag))) \<Rightarrow> (Suc (size (Type f)), 1, length tag))"

function nodeOf :: "gtype \<Rightarrow> Node panics"
and structNodeOf :: "gtype \<Rightarrow> Node panics"
and structNodeOf_loop :: "StructField list \<Rightarrow> structField list panics"
and makeStructField :: "StructField \<Rightarrow> structField panics"
and makeStructField_loop :: "StructField \<Rightarrow> fieldVars \<Rightarrow> string \<Rightarrow> fieldVars panics"
where
  "nodeOf Int96T = Inr (Leaf Int96Type)"
| "nodeOf (Basic k) =
     (case k of
        reflect_Bool \<Rightarrow> Inr (Leaf BooleanType)
      | reflect_Int \<Rightarrow> Inr (Int_node 64)
      | reflect_Int64 \<Rightarrow> Inr (Int_node 64)
      | reflect_Int8 \<Rightarrow> Inr (Int_node (Bits (Basic k)))
      | reflect_Int16 \<Rightarrow> Inr (Int_node (Bits (Basic k)))
      | reflect_Int32 \<Rightarrow> Inr (Int_node (Bits (Basic k)))
      | reflect_Uint \<Rightarrow> Inr (Uint 64)
      | reflect_Uintptr \<Rightarrow> Inr (Uint 64)
      | reflect_Uint64 \<Rightarrow> Inr (Uint 64)
      | reflect_Uint8 \<Rightarrow> Inr (Uint (Bits (Basic k)))
      | reflect_Uint16 \<Rightarrow> Inr (Uint (Bits (Basic k)))
      | reflect_Uint32 \<Rightarrow> Inr (Uint (Bits (Basic k)))
      | reflect_Float32 \<Rightarrow> Inr (Leaf FloatType)
      | reflect_Float64 \<Rightarrow> Inr (Leaf DoubleType)
      | reflect_String \<Rightarrow> Inr String
      | _ \<Rightarrow> Inl (''cannot create parquet node from go value of type '' @ Type_String (Basic k)))"
| "nodeOf (PtrTo e) = (case nodeOf e of Inl p \<Rightarrow> Inl p | Inr n \<Rightarrow> Optional n)"
| "nodeOf (StructType nm fs) = structNodeOf (StructType nm fs)"
| "nodeOf (SliceOf e) = (case nodeOf e of Inl p \<Rightarrow> Inl p | Inr n \<Rightarrow> Repeated n)"
| "nodeOf (ArrayOf n e) =
     (if type_Kind e = reflect_Uint8 \<and> n = 16 then Inr UUID
      else Inl (''cannot create parquet node from go value of type ''
                  @ Type_String (ArrayOf n e)))"
| "nodeOf (MapOf k v) =
     Inl (''cannot create parquet node from go value of type '' @ Type_String (MapOf k v))"
| "structNodeOf t =
     (case structFieldsOf t of
        Inl p \<Rightarrow> Inl p
      | Inr flds \<Rightarrow>
         (case structNodeOf_loop flds of
            Inl p \<Rightarrow> Inl p
          | Inr sfields \<Rightarrow> Inr (StructNode sfields (map Name flds))))"
| "structNodeOf_loop [] = Inr []"
| "structNodeOf_loop (f # fs) =
     (case makeStructField f of
        Inl p \<Rightarrow> Inl p
      | Inr sf \<Rightarrow>
         (case structNodeOf_loop fs of
            Inl p \<Rightarrow> Inl p
          | Inr sfs \<Rightarrow> Inr (sf # sfs)))"
| "makeStructField f =
     (case (if Get (Tag f) ''parquet'' \<noteq> []
            then makeStructField_loop f fieldVars0 (snd (split (Get (Tag f) ''parquet'')))
            else Inr fieldVars0) of
        Inl p \<Rightarrow> Inl p
      | Inr st \<Rightarrow>
         (case (case var_Node st of None \<Rightarrow> nodeOf (Type f) | Some n \<Rightarrow> Inr n) of
            Inl p \<Rightarrow> Inl p
          | Inr n0 \<Rightarrow>
             (case Compressed n0 (var_codecs st) of
                Inl p \<Rightarrow> Inl p
              | Inr n1 \<Rightarrow>
                 (case Encoded n1 (var_encodings st) of
                    Inl p \<Rightarrow> Inl p
                  | Inr n2 \<Rightarrow>
                     (case (if var_optional st
                            then Optional (if var_list st then List n2 else n2)
                            else Inr (if var_list st then List n2 else n2)) of
                        Inl p \<Rightarrow> Inl p
                      | Inr n3 \<Rightarrow> Inr (n3, Index f))))))"
| "makeStructField_loop f st tag =
     (if tag = [] then Inr st
      else
        (case (let option = fst (splitOptionArgs (fst (split tag)));
                   args = snd (splitOptionArgs (fst (split tag)))
               in if option = ''optional'' then setOptional f st
                  else if option = ''snappy'' then setCompression f st Snappy
                  else if option = ''gzip'' then setCompression f st Gzip
                  else if option = ''brotli'' then setCompression f st Brotli
                  else if option = ''lz4'' then setCompression f st Lz4Raw
                  else if option = ''zstd'' then setCompression f st Zstd
                  else if option = ''plain'' then setEncoding f st Plain
                  else if option = ''dict'' then setEncoding f st RLEDictionary
                  else if option = ''delta'' then
                    (if type_Kind (Type f) \<in> {reflect_Int, reflect_Int32, reflect_Int64,
                                               reflect_Uint, reflect_Uint32, reflect_Uint64}
                     then setEncoding f st DeltaBinaryPacked
                     else Inl (throwInvalidFieldTag f option))
                  else if option = ''list'' then
                    (case Type f of
                       SliceOf e \<Rightarrow>
                         (case nodeOf e of
                            Inl p \<Rightarrow> Inl p
                          | Inr element \<Rightarrow>
                             (case setNode f st element of
                                Inl p \<Rightarrow> Inl p
                              | Inr st1 \<Rightarrow> setList f st1))
                     | _ \<Rightarrow> Inl (throwInvalidFieldTag f option))
                  else if option = ''enum'' then
                    (if type_Kind (Type f) = reflect_String then setNode f st Enum
                     else Inl (throwInvalidFieldTag f option))
                  else if option = ''uuid'' then
                    (case Type f of
                       Basic k \<Rightarrow>
                         (if k = reflect_String then setNode f st UUID
                          else Inl (throwInvalidFieldTag f option))
                     | ArrayOf n e \<Rightarrow>
                         (if type_Kind e \<noteq> reflect_Uint8 \<or> n \<noteq> 16
                          then Inl (throwInvalidFieldTag f option)
                          else Inr st)
                     | Int96T \<Rightarrow> Inl (throwInvalidFieldTag f option)
                     | _ \<Rightarrow> Inl (throwInvalidFieldTag f option))
                  else if option = ''decimal'' then
                    (case parseDecimalArgs args of
                       Inl err \<Rightarrow> Inl (throwInvalidFieldTag f (option @ args))
                     | Inr (scale, precision) \<Rightarrow>
                         (if type_Kind (Type f) = reflect_Int32
                          then setNode f st (Decimal scale precision Int32Type)
                          else if type_Kind (Type f) = reflect_Int64
                          then setNode f st (Decimal scale precision Int64Type)
                          else Inl (throwInvalidFieldTag f option)))
                  else Inl (throwUnknownFieldTag f option)) of
           Inl p \<Rightarrow> Inl p
         | Inr st' \<Rightarrow> makeStructField_loop f st' (snd (split tag))))"
  by pat_completeness auto

termination
proof (relation "inv_image (less_than <*lex*> less_than <*lex*> less_than) builder_measure",
       goal_cases)
  case 1
  show ?case by (intro wf_inv_image wf_lex_prod wf_less_than)
qed (auto simp: builder_measure_def split_shorter less_Suc_eq_le
       dest!: structFieldsOf_sizes)

text \<open>\<^verbatim>\<open>Type.Name\<close>: the name of a defined type, empty for an unnamed composite type.\<close>

definition Type_Name :: "gtype \<Rightarrow> string" where
  "Type_Name t = (case t of
       Basic k \<Rightarrow> Kind_String k
     | StructType nm fs \<Rightarrow> nm
     | Int96T \<Rightarrow> ''Int96''
     | _ \<Rightarrow> [])"

text \<open>
  \<^verbatim>\<open>SchemaOf\<close>, \<^verbatim>\<open>NamedSchemaOf\<close> and \<^verbatim>\<open>namedSchemaOf\<close> look at the type of the model only: a
  struct or a pointer to a struct, anything else is a panic.
\<close>

definition namedSchemaOf :: "string \<Rightarrow> gtype \<Rightarrow> Schema panics" where
  "namedSchemaOf nm t =
     (case (case t of
              StructType n fs \<Rightarrow> Some t
            | PtrTo (StructType n fs) \<Rightarrow> Some (StructType n fs)
            | _ \<Rightarrow> None) of
        Some st \<Rightarrow> (case structNodeOf st of Inl p \<Rightarrow> Inl p | Inr node \<Rightarrow> newSchema nm node)
      | None \<Rightarrow> Inl (''cannot construct parquet schema from value of type '' @ Type_String t))"

definition NamedSchemaOf :: "string \<Rightarrow> gtype \<Rightarrow> Schema panics" where
  "NamedSchemaOf nm t = namedSchemaOf nm t"

definition SchemaOf :: "gtype \<Rightarrow> Schema panics" where
  "SchemaOf t = NamedSchemaOf (Type_Name (case t of PtrTo e \<Rightarrow> e | _ \<Rightarrow> t)) t"

text \<open>A sink that never fails and records its calls in order.\<close>

definition recorder :: "(unit, (nat \<times> Value) list) Traversal" where
  "recorder columnIndex v s = (None, s @ [(columnIndex, v)])"

section \<open>Lookup in a struct node\<close>

lemma search_loop_bounds: "i \<le> j \<Longrightarrow> i \<le> search_loop f i j \<and> search_loop f i j \<le> j"
proof (induction f i j rule: search_loop.induct)
  case (1 f i j)
  show ?case
  proof (cases "i < j")
    case True
    let ?h = "(i + j) div 2"
    from True have h: "i \<le> ?h" "?h < j" by auto
    show ?thesis
    proof (cases "f ?h")
      case True
      with \<open>i < j\<close> "1.IH"(2) [OF \<open>i < j\<close> refl] h show ?thesis
        by (simp add: Let_def)
    next
      case False
      with \<open>i < j\<close> "1.IH"(1) [OF \<open>i < j\<close> refl] h show ?thesis
        by (simp add: Let_def)
    qed
  next
    case False
    with "1.prems" show ?thesis by simp
  qed
qed

lemma Search_le: "Search n f \<le> n"
  using search_loop_bounds [of 0 n f] by (simp add: Search_def)

lemma indexOf_absent:
  assumes "name \<notin> set names"
  shows "indexOf names name = - 1"
proof -
  let ?i = "Search (length names) (\<lambda>i. name \<le> names ! i)"
  have "?i = length names \<or> names ! ?i \<noteq> name"
  proof (cases "?i = length names")
    case False
    with Search_le [of "length names" "\<lambda>i. name \<le> names ! i"]
    have "?i < length names" by simp
    then have "names ! ?i \<in> set names" by (rule nth_mem)
    with assms show ?thesis by auto
  qed simp
  then show ?thesis by (simp add: indexOf_def)
qed

text \<open>
  C10. For a struct node and a name that is not among its child names, the binary search of
  \<open>indexOf\<close> returns the sentinel \<open>-1\<close>, and \<open>ChildByName\<close> and \<open>ValueByName\<close>, which index
  with it, panic: neither returns a node or a value.
\<close>

theorem structNode_lookup_absent_panics:
  assumes "name \<notin> set names"
  shows "indexOf names name = - 1
       \<and> ChildByName (StructNode sfields names) name = Inl ''runtime error: index out of range''
       \<and> ValueByName (StructNode sfields names) base name
           = Inl ''runtime error: index out of range''"
  using indexOf_absent [OF assms]
  by (simp add: ChildByIndex_def ValueByIndex_def)

theorem structNode_lookup_absent_panics_witness:
  "''zz'' \<notin> set [''id'', ''tags'']
   \<and> indexOf [''id'', ''tags''] ''zz'' = - 1
   \<and> ChildByName (StructNode [(String, [0]), (String, [1])] [''id'', ''tags'']) ''zz''
       = Inl ''runtime error: index out of range''
   \<and> ValueByName (StructNode [(String, [0]), (String, [1])] [''id'', ''tags''])
         (VStruct [(''ID'', VString ''a''), (''Tags'', VString ''b'')]) ''zz''
       = Inl ''runtime error: index out of range''"
  using structNode_lookup_absent_panics
    [of "''zz''" "[''id'', ''tags'']" "[(String, [0]), (String, [1])]"
        "VStruct [(''ID'', VString ''a''), (''Tags'', VString ''b'')]"]
  by (simp add: ChildByIndex_def ValueByIndex_def isMap_def)

end
